theory Spec2Isabelle
  imports Main "HOL-Library.Word" "HOL-Library.Sublist"
begin

section \<open>JavaScript strings\<close>

text \<open>
  A JavaScript string is a sequence of UTF-16 code units: \<open>text[i]\<close> reads one code
  unit and \<open>text.length\<close> counts them. Literals of the source are written by their
  code units: the page-break marker is U+FF5B U+6539 U+9801 U+FF5D.
\<close>

type_synonym jschar = "16 word"
type_synonym jsstring = "jschar list"

text \<open>The page-break marker of \<open>process\<close> (fullwidth brace, two kanji, fullwidth brace).\<close>

definition pageBreak :: jsstring where
  "pageBreak = [0xFF5B, 0x6539, 0x9801, 0xFF5D]"

text \<open>
  The regular expression of the source, the character class from U+4E00 to U+9FAF, tested on
  one code unit.
\<close>

definition isKanji :: "jschar \<Rightarrow> bool" where
  "isKanji c = (0x4E00 \<le> c \<and> c \<le> 0x9FAF)"

section \<open>furiganaApi: ruby styles\<close>

text \<open>
  \<open>applyInkBracketRuby(surface, furigana)\<close> is the template
  \<open>surface + U+300A + furigana + U+300B\<close>; \<open>applyXhtmlRuby\<close> wraps in
  \<open><ruby>surface<rt>furigana</rt></ruby>\<close>.
\<close>

definition applyInkBracketRuby :: "jsstring \<Rightarrow> jsstring \<Rightarrow> jsstring" where
  "applyInkBracketRuby surface furigana = surface @ [0x300A] @ furigana @ [0x300B]"

definition rubyOpen :: jsstring where
  "rubyOpen = [0x3C, 0x72, 0x75, 0x62, 0x79, 0x3E]"

definition rtOpen :: jsstring where
  "rtOpen = [0x3C, 0x72, 0x74, 0x3E]"

definition rtRubyClose :: jsstring where
  "rtRubyClose = [0x3C, 0x2F, 0x72, 0x74, 0x3E, 0x3C, 0x2F, 0x72, 0x75, 0x62, 0x79, 0x3E]"

definition applyXhtmlRuby :: "jsstring \<Rightarrow> jsstring \<Rightarrow> jsstring" where
  "applyXhtmlRuby surface furigana = rubyOpen @ surface @ rtOpen @ furigana @ rtRubyClose"

text \<open>The sample word of the style examples: surface U+6F22 U+5B57, reading U+304B U+3093 U+3058.\<close>

definition kanji_surface :: jsstring where
  "kanji_surface = [0x6F22, 0x5B57]"

definition kanji_reading :: jsstring where
  "kanji_reading = [0x304B, 0x3093, 0x3058]"

section \<open>String primitives used by the source\<close>

text \<open>
  \<open>text.indexOf(s, pos)\<close>: the first index at or after \<open>pos\<close> where \<open>s\<close> occurs,
  \<open>None\<close> for the result -1. The position is clamped to the length, and the empty string is
  found at the clamped position.
\<close>

fun indexOfFrom :: "jsstring \<Rightarrow> jsstring \<Rightarrow> nat \<Rightarrow> nat option" where
  "indexOfFrom s [] i = (if s = [] then Some i else None)"
| "indexOfFrom s (c # cs) i = (if prefix s (c # cs) then Some i else indexOfFrom s cs (Suc i))"

definition indexOf :: "jsstring \<Rightarrow> jsstring \<Rightarrow> nat \<Rightarrow> nat option" where
  "indexOf text s pos = indexOfFrom s (drop pos text) (min pos (length text))"

definition includes_str :: "jsstring \<Rightarrow> jsstring \<Rightarrow> bool" where
  "includes_str text s = (indexOf text s 0 \<noteq> None)"

text \<open>
  \<open>text.substring(a, b)\<close> clamps both positions to the length and swaps them when
  \<open>a > b\<close>; \<open>text.substring(a)\<close> runs to the end.
\<close>

definition substring :: "jsstring \<Rightarrow> nat \<Rightarrow> nat \<Rightarrow> jsstring" where
  "substring text a b =
     (let a' = min a (length text); b' = min b (length text)
      in take (max a' b' - min a' b') (drop (min a' b') text))"

definition substringFrom :: "jsstring \<Rightarrow> nat \<Rightarrow> jsstring" where
  "substringFrom text a = drop a text"

text \<open>
  \<open>text.split(sep)\<close> with a string separator: the pieces between successive occurrences of
  \<open>sep\<close>, found from left to right; with the empty separator, the code units one by one.
\<close>

fun splitFrom :: "jsstring \<Rightarrow> jsstring \<Rightarrow> jsstring \<Rightarrow> jsstring list" where
  "splitFrom sep piece [] = [piece]"
| "splitFrom sep piece (c # cs) =
     (if sep \<noteq> [] \<and> prefix sep (c # cs)
      then piece # splitFrom sep [] (drop (length sep - 1) cs)
      else splitFrom sep (piece @ [c]) cs)"

definition split :: "jsstring \<Rightarrow> jsstring \<Rightarrow> jsstring list" where
  "split text sep = (if sep = [] then map (\<lambda>c. [c]) text else splitFrom sep [] text)"

text \<open>\<open>parts.join(sep)\<close>.\<close>

fun join :: "jsstring list \<Rightarrow> jsstring \<Rightarrow> jsstring" where
  "join [] sep = []"
| "join [x] sep = x"
| "join (x # y # ys) sep = x @ sep @ join (y # ys) sep"

text \<open>
  \<open>chunk.trim().length === 0\<close>: every code unit is white space or a line terminator
  (TAB, LF, VT, FF, CR, SP, NBSP, U+1680, U+2000 to U+200A, U+2028, U+2029, U+202F, U+205F,
  U+3000, U+FEFF).
\<close>

definition isWhiteSpace :: "jschar \<Rightarrow> bool" where
  "isWhiteSpace c =
     (c = 0x09 \<or> c = 0x0A \<or> c = 0x0B \<or> c = 0x0C \<or> c = 0x0D \<or> c = 0x20 \<or> c = 0xA0
      \<or> c = 0x1680 \<or> (0x2000 \<le> c \<and> c \<le> 0x200A) \<or> c = 0x2028 \<or> c = 0x2029
      \<or> c = 0x202F \<or> c = 0x205F \<or> c = 0x3000 \<or> c = 0xFEFF)"

definition trimIsEmpty :: "jsstring \<Rightarrow> bool" where
  "trimIsEmpty chunk = list_all isWhiteSpace chunk"

section \<open>furiganaApi: splitTextIntoChunks\<close>

text \<open>
  \<open>new TextEncoder().encode(char).length\<close> for the one-code-unit string \<open>text[i]\<close>:
  one byte below U+0080, two below U+0800, three otherwise (a surrogate code unit on its
  own is encoded as U+FFFD, three bytes).
\<close>

definition charLength :: "jschar \<Rightarrow> nat" where
  "charLength c = (if c < 0x80 then 1 else if c < 0x800 then 2 else 3)"

text \<open>
  The loop of \<open>splitTextIntoChunks(text, maxLength)\<close> over the code units, on the state
  \<open>(chunks, currentChunk, currentLength)\<close>.
\<close>

fun splitLoop :: "nat \<Rightarrow> jsstring \<Rightarrow> jsstring list \<times> jsstring \<times> nat
    \<Rightarrow> jsstring list \<times> jsstring \<times> nat" where
  "splitLoop maxLength [] st = st"
| "splitLoop maxLength (c # cs) (chunks, currentChunk, currentLength) =
     (if currentLength + charLength c > maxLength
      then splitLoop maxLength cs (chunks @ [currentChunk], [c], charLength c)
      else splitLoop maxLength cs (chunks, currentChunk @ [c], currentLength + charLength c))"

definition splitTextIntoChunks :: "jsstring \<Rightarrow> nat \<Rightarrow> jsstring list" where
  "splitTextIntoChunks text maxLength =
     (case splitLoop maxLength text ([], [], 0) of
        (chunks, currentChunk, currentLength) \<Rightarrow>
          if currentChunk \<noteq> [] then chunks @ [currentChunk] else chunks)"

text \<open>The number of bytes the loop adds up for a text: the sum of the sizes of its code units.\<close>

definition byteLength :: "jsstring \<Rightarrow> nat" where
  "byteLength text = sum_list (map charLength text)"


text \<open>
  The UTF-8 byte length of a string, as a reader of the specification measures it: a code
  point below U+0080 takes one byte, below U+0800 two, any other code point of the basic plane
  three, and a surrogate pair (one code point beyond the basic plane) four; a surrogate
  without its partner is encoded as U+FFFD, three bytes. It is compared with \<open>byteLength\<close>
  below.
\<close>

definition isHighSurrogate :: "jschar \<Rightarrow> bool" where
  "isHighSurrogate c = (0xD800 \<le> c \<and> c \<le> 0xDBFF)"

definition isLowSurrogate :: "jschar \<Rightarrow> bool" where
  "isLowSurrogate c = (0xDC00 \<le> c \<and> c \<le> 0xDFFF)"

fun utf8Length :: "jsstring \<Rightarrow> nat" where
  "utf8Length [] = 0"
| "utf8Length [c] = charLength c"
| "utf8Length (c # d # cs) =
     (if isHighSurrogate c \<and> isLowSurrogate d then 4 + utf8Length cs
      else charLength c + utf8Length (d # cs))"

section \<open>Types of the annotation service\<close>

record SubWord =
  sub_surface :: jsstring
  sub_furigana :: "jsstring option"
  sub_roman :: "jsstring option"

record Word =
  surface :: jsstring
  furigana :: "jsstring option"
  roman :: "jsstring option"
  subword :: "SubWord list option"

datatype RubyStyle = InkBracket | XHTML

datatype error = Error string

text \<open>
  \<open>requestFurigana(text, clientId, grade)\<close> is the call to the external service: a
  parameter of the model, returning the word list of the response or the error thrown.
\<close>

type_synonym service = "jsstring \<Rightarrow> jsstring \<Rightarrow> nat \<Rightarrow> error + Word list"

section \<open>FuriganaProcessor\<close>

text \<open>
  The fields of the class. \<open>requested\<close> is not a field of the source: it logs, in order,
  the texts passed to \<open>requestFurigana\<close>. An optional string used as a condition
  (\<open>!word.furigana\<close>, \<open>subword.furigana\<close>) is false when it is undefined and when it is
  the empty string.
\<close>

record FuriganaProcessor =
  skipInfo :: "jschar \<rightharpoonup> int"
  skipLength :: int
  rubyStyle :: RubyStyle
  grade :: nat
  clientId :: jsstring
  requested :: "jsstring list"

text \<open>\<open>this.skipInfo[char] && this.skipInfo[char] > 0\<close>.\<close>

definition skipActive :: "FuriganaProcessor \<Rightarrow> jschar \<Rightarrow> bool" where
  "skipActive p c = (case skipInfo p c of None \<Rightarrow> False | Some n \<Rightarrow> n \<noteq> 0 \<and> n > 0)"

definition shouldSkipRuby :: "FuriganaProcessor \<Rightarrow> jsstring \<Rightarrow> bool" where
  "shouldSkipRuby p s =
     (if \<not> list_ex isKanji s then False
      else list_ex (\<lambda>c. isKanji c \<and> skipActive p c) s)"

definition updateSkipInfo :: "FuriganaProcessor \<Rightarrow> jsstring \<Rightarrow> FuriganaProcessor" where
  "updateSkipInfo p s =
     (if skipLength p \<le> 0 then p
      else p\<lparr>skipInfo := fold (\<lambda>c m. if isKanji c then m(c \<mapsto> skipLength p) else m) s (skipInfo p)\<rparr>)"

definition decrementSkipCounts :: "FuriganaProcessor \<Rightarrow> FuriganaProcessor" where
  "decrementSkipCounts p =
     p\<lparr>skipInfo := (\<lambda>key. case skipInfo p key of None \<Rightarrow> None
                              | Some n \<Rightarrow> Some (if n > 0 then n - 1 else n))\<rparr>"

text \<open>The choice between the two styles, written out at both places where a gloss is rendered.\<close>

definition applyRuby :: "FuriganaProcessor \<Rightarrow> jsstring \<Rightarrow> jsstring \<Rightarrow> jsstring" where
  "applyRuby p s f =
     (if rubyStyle p = InkBracket then applyInkBracketRuby s f else applyXhtmlRuby s f)"

text \<open>
  The loop of \<open>applyRubyToWord\<close> over the subwords, on \<open>(result, currentPos)\<close> and the
  processor.
\<close>

fun subwordLoop :: "jsstring \<Rightarrow> SubWord list \<Rightarrow> jsstring \<times> nat \<times> FuriganaProcessor
    \<Rightarrow> jsstring \<times> nat \<times> FuriganaProcessor" where
  "subwordLoop ws [] st = st"
| "subwordLoop ws (sw # sws) (result, currentPos, p) =
     (case indexOf ws (sub_surface sw) currentPos of
        None \<Rightarrow> subwordLoop ws sws (result, currentPos, p)
      | Some startPos \<Rightarrow>
          (let result1 = (if startPos > currentPos
                          then result @ substring ws currentPos startPos else result);
               pos1 = startPos + length (sub_surface sw)
           in case sub_furigana sw of
                None \<Rightarrow> subwordLoop ws sws (result1 @ sub_surface sw, pos1, p)
              | Some f \<Rightarrow>
                  if f = [] then subwordLoop ws sws (result1 @ sub_surface sw, pos1, p)
                  else if shouldSkipRuby p (sub_surface sw)
                  then subwordLoop ws sws (result1 @ sub_surface sw, pos1, p)
                  else subwordLoop ws sws (result1 @ applyRuby p (sub_surface sw) f, pos1,
                         updateSkipInfo p (sub_surface sw))))"

definition applyRubyToWord :: "FuriganaProcessor \<Rightarrow> Word \<Rightarrow> jsstring \<times> FuriganaProcessor" where
  "applyRubyToWord p word =
     (case furigana word of
        None \<Rightarrow> (surface word, p)
      | Some f \<Rightarrow>
          if f = [] then (surface word, p)
          else if (case subword word of None \<Rightarrow> False | Some sws \<Rightarrow> length sws > 0)
          then (case subwordLoop (surface word) (case subword word of None \<Rightarrow> [] | Some sws \<Rightarrow> sws)
                       ([], 0, p) of
                  (result, currentPos, p') \<Rightarrow>
                    (if currentPos < length (surface word)
                     then result @ substringFrom (surface word) currentPos else result, p'))
          else if shouldSkipRuby p (surface word) then (surface word, p)
          else (applyRuby p (surface word) f, updateSkipInfo p (surface word)))"

text \<open>
  The loop of \<open>applyRubyFromResponse\<close> over the words. \<open>applyRubyToWord\<close> runs first, for
  every word; a word whose surface is not found is then passed over.
\<close>

fun wordLoop :: "jsstring \<Rightarrow> Word list \<Rightarrow> jsstring \<times> nat \<times> FuriganaProcessor
    \<Rightarrow> jsstring \<times> nat \<times> FuriganaProcessor" where
  "wordLoop originalText [] st = st"
| "wordLoop originalText (word # words) (result, currentPos, p) =
     (case applyRubyToWord p word of
        (processedWord, p') \<Rightarrow>
          (case indexOf originalText (surface word) currentPos of
             None \<Rightarrow> wordLoop originalText words (result, currentPos, p')
           | Some startPos \<Rightarrow>
               wordLoop originalText words
                 ((if startPos > currentPos
                   then result @ substring originalText currentPos startPos else result)
                    @ processedWord,
                  startPos + length (surface word), p')))"

definition applyRubyFromResponse ::
    "FuriganaProcessor \<Rightarrow> Word list \<Rightarrow> jsstring \<Rightarrow> jsstring \<times> FuriganaProcessor" where
  "applyRubyFromResponse p words originalText =
     (case wordLoop originalText words ([], 0, p) of
        (result, currentPos, p') \<Rightarrow>
          (if currentPos < length originalText
           then result @ substringFrom originalText currentPos else result, p'))"

text \<open>
  \<open>processChunk\<close>: a chunk of white space is returned as it is, with no request. Otherwise
  the request is made; its error is thrown again under a new message. (The source also sends
  a fixed test request first and ignores its outcome.)
\<close>

definition processChunk ::
    "service \<Rightarrow> FuriganaProcessor \<Rightarrow> jsstring \<Rightarrow> (error + jsstring) \<times> FuriganaProcessor" where
  "processChunk requestFurigana p chunk =
     (if trimIsEmpty chunk then (Inr chunk, p)
      else
        (let p1 = p\<lparr>requested := requested p @ [chunk]\<rparr>
         in case requestFurigana chunk (clientId p) (grade p) of
              Inl (Error msg) \<Rightarrow> (Inl (Error (''Chunk processing failed: '' @ msg)), p1)
            | Inr words \<Rightarrow>
                (case applyRubyFromResponse p1 words chunk of (r, p2) \<Rightarrow> (Inr r, p2))))"

text \<open>
  \<open>try { result += await this.processChunk(x) } catch { result += x }\<close>, as \<open>process\<close>
  has it for a part and for a chunk.
\<close>

definition tryProcessChunk ::
    "service \<Rightarrow> FuriganaProcessor \<Rightarrow> jsstring \<Rightarrow> jsstring \<times> FuriganaProcessor" where
  "tryProcessChunk requestFurigana p x =
     (case processChunk requestFurigana p x of
        (Inr r, p') \<Rightarrow> (r, p')
      | (Inl e, p') \<Rightarrow> (x, p'))"

text \<open>The loop of \<open>process\<close> over the parts of a chunk that contains the marker.\<close>

fun processParts ::
    "service \<Rightarrow> FuriganaProcessor \<Rightarrow> jsstring list \<Rightarrow> jsstring \<times> FuriganaProcessor" where
  "processParts requestFurigana p [] = ([], p)"
| "processParts requestFurigana p (part # parts) =
     (case (if part \<noteq> [] then tryProcessChunk requestFurigana p part else ([], p)) of
        (out1, p1) \<Rightarrow>
          (if parts \<noteq> []
           then (case processParts requestFurigana (p1\<lparr>skipInfo := Map.empty\<rparr>) parts of
                   (out2, p2) \<Rightarrow> (out1 @ pageBreak @ out2, p2))
           else (out1, p1)))"

fun processChunks ::
    "service \<Rightarrow> FuriganaProcessor \<Rightarrow> jsstring list \<Rightarrow> jsstring \<times> FuriganaProcessor" where
  "processChunks requestFurigana p [] = ([], p)"
| "processChunks requestFurigana p (chunk # chunks) =
     (case (if includes_str chunk pageBreak
            then processParts requestFurigana p (split chunk pageBreak)
            else tryProcessChunk requestFurigana p chunk) of
        (out1, p1) \<Rightarrow>
          (case processChunks requestFurigana p1 chunks of
             (out2, p2) \<Rightarrow> (out1 @ out2, p2)))"

definition process :: "service \<Rightarrow> FuriganaProcessor \<Rightarrow> jsstring \<Rightarrow> jsstring \<times> FuriganaProcessor" where
  "process requestFurigana p text = processChunks requestFurigana p (splitTextIntoChunks text 4000)"

text \<open>The constructor: the given settings and an empty table.\<close>

definition newFuriganaProcessor :: "jsstring \<Rightarrow> int \<Rightarrow> nat \<Rightarrow> RubyStyle \<Rightarrow> FuriganaProcessor" where
  "newFuriganaProcessor cid len g style =
     \<lparr>skipInfo = Map.empty, skipLength = len, rubyStyle = style, grade = g, clientId = cid,
      requested = []\<rparr>"

section \<open>The merge step as a list of runs\<close>

text \<open>
  The merge algorithm in the words of the specification: a cursor into the chunk; for each
  word, the first occurrence of its surface at or after the cursor; a plain-copy run for the
  text before it, a gloss candidate for the match, the cursor moved behind the match; a word
  that is not found is recorded as a miss and the cursor stays; a trailing plain-copy run for
  the rest. It is compared with \<open>applyRubyFromResponse\<close> below.
\<close>

datatype AlignedRun = PlainCopy jsstring | GlossCandidate Word | AlignmentMiss Word

fun merge :: "jsstring \<Rightarrow> nat \<Rightarrow> Word list \<Rightarrow> AlignedRun list" where
  "merge chunkText cursor [] =
     (if cursor < length chunkText then [PlainCopy (drop cursor chunkText)] else [])"
| "merge chunkText cursor (word # words) =
     (case indexOf chunkText (surface word) cursor of
        None \<Rightarrow> AlignmentMiss word # merge chunkText cursor words
      | Some start \<Rightarrow>
          (if start > cursor then [PlainCopy (take (start - cursor) (drop cursor chunkText))] else [])
            @ GlossCandidate word # merge chunkText (start + length (surface word)) words)"

text \<open>The text a run stands for in the chunk.\<close>

fun runText :: "AlignedRun \<Rightarrow> jsstring" where
  "runText (PlainCopy s) = s"
| "runText (GlossCandidate word) = surface word"
| "runText (AlignmentMiss word) = []"

text \<open>
  Rendering a list of runs with the processor of the source: a plain copy as it is, a gloss
  candidate by \<open>applyRubyToWord\<close>. A missed word gives no output, but the source has
  already passed it to \<open>applyRubyToWord\<close>, so its effect on the processor is kept.
\<close>

fun renderRuns :: "FuriganaProcessor \<Rightarrow> AlignedRun list \<Rightarrow> jsstring \<times> FuriganaProcessor" where
  "renderRuns p [] = ([], p)"
| "renderRuns p (PlainCopy s # runs) =
     (case renderRuns p runs of (out, p') \<Rightarrow> (s @ out, p'))"
| "renderRuns p (GlossCandidate word # runs) =
     (case applyRubyToWord p word of
        (t, p1) \<Rightarrow> (case renderRuns p1 runs of (out, p2) \<Rightarrow> (t @ out, p2)))"
| "renderRuns p (AlignmentMiss word # runs) = renderRuns (snd (applyRubyToWord p word)) runs"

section \<open>The earlier copies of furiganaApi and FuriganaProcessor\<close>

text \<open>
  The repository also holds an earlier copy of \<open>furiganaApi\<close> (a line-based splitter with a
  fixed limit of 4000 code units, and rendering kanji by kanji) and an earlier copy of
  \<open>FuriganaProcessor\<close> (no test for a surface that is not found). They are modelled here
  under the names of the source with the suffix \<open>_v0\<close>.
\<close>

definition MAX_CHUNK_SIZE :: nat where
  "MAX_CHUNK_SIZE = 4000"

text \<open>
  The character class of the regular expression that cuts a long line: full stop, comma,
  exclamation and question mark, round and square brackets, in their ASCII and Japanese forms,
  and the corner brackets.
\<close>

definition isBoundary :: "jschar \<Rightarrow> bool" where
  "isBoundary c =
     (c = 0x2E \<or> c = 0x3002 \<or> c = 0x2C \<or> c = 0x3001 \<or> c = 0x21 \<or> c = 0xFF01
      \<or> c = 0x3F \<or> c = 0xFF1F \<or> c = 0x28 \<or> c = 0x29 \<or> c = 0xFF08 \<or> c = 0xFF09
      \<or> c = 0x5B \<or> c = 0x5D \<or> c = 0x300C \<or> c = 0x300D \<or> c = 0x300E \<or> c = 0x300F)"

text \<open>
  \<open>line.split(/([...])/)\<close>: the pieces between boundary characters, and the boundary
  characters themselves.
\<close>

fun splitBoundaries :: "jsstring \<Rightarrow> jsstring \<Rightarrow> jsstring list" where
  "splitBoundaries piece [] = [piece]"
| "splitBoundaries piece (c # cs) =
     (if isBoundary c then piece # [c] # splitBoundaries [] cs
      else splitBoundaries (piece @ [c]) cs)"

fun segmentLoop :: "jsstring list \<Rightarrow> jsstring list \<times> jsstring \<Rightarrow> jsstring list \<times> jsstring" where
  "segmentLoop [] st = st"
| "segmentLoop (segment # segments) (chunks, currentChunk) =
     (if length currentChunk + length segment > MAX_CHUNK_SIZE
      then segmentLoop segments (chunks @ [currentChunk], segment)
      else segmentLoop segments (chunks, currentChunk @ segment))"

fun lineLoop :: "jsstring list \<Rightarrow> jsstring list \<times> jsstring \<Rightarrow> jsstring list \<times> jsstring" where
  "lineLoop [] st = st"
| "lineLoop (line # lines) (chunks, currentChunk) =
     (if includes_str line pageBreak
      then
        (let parts = split line pageBreak;
             beforePageBreak = (case parts of [] \<Rightarrow> [] | b # rest \<Rightarrow> b);
             afterPageBreak = tl parts;
             st1 = (if beforePageBreak \<noteq> []
                    then (if length currentChunk + length beforePageBreak > MAX_CHUNK_SIZE
                          then (chunks @ [currentChunk], beforePageBreak)
                          else (chunks, currentChunk @ (if currentChunk \<noteq> [] then [0x0A] else [])
                                          @ beforePageBreak))
                    else (chunks, currentChunk));
             st2 = (if snd st1 \<noteq> [] then (fst st1 @ [snd st1], []) else st1);
             afterPageBreakText = join afterPageBreak pageBreak
         in lineLoop lines
              (fst st2, if afterPageBreakText \<noteq> [] then afterPageBreakText else snd st2))
      else if length line > MAX_CHUNK_SIZE
      then lineLoop lines (segmentLoop (splitBoundaries [] line) (chunks, currentChunk))
      else if length currentChunk + length line > MAX_CHUNK_SIZE
      then lineLoop lines (chunks @ [currentChunk], line)
      else lineLoop lines
             (chunks, currentChunk @ (if currentChunk \<noteq> [] then [0x0A] else []) @ line))"

definition splitTextIntoChunks_v0 :: "jsstring \<Rightarrow> jsstring list" where
  "splitTextIntoChunks_v0 original =
     (case lineLoop (split original [0x0A]) ([], []) of
        (chunks, currentChunk) \<Rightarrow>
          if currentChunk \<noteq> [] then chunks @ [currentChunk] else chunks)"

text \<open>
  Rendering kanji by kanji: the i-th kanji of the word gets the i-th code unit of the reading,
  between U+3010 and U+3011, or inside \<open><ruby>\<close> and \<open><rt>\<close>.
\<close>

fun inkBracketLoop :: "jsstring \<Rightarrow> jsstring \<Rightarrow> nat \<Rightarrow> jsstring" where
  "inkBracketLoop [] f kanjiIndex = []"
| "inkBracketLoop (c # cs) f kanjiIndex =
     (if isKanji c
      then (if kanjiIndex < length f
            then [c, 0x3010, f ! kanjiIndex, 0x3011] @ inkBracketLoop cs f (kanjiIndex + 1)
            else c # inkBracketLoop cs f kanjiIndex)
      else c # inkBracketLoop cs f kanjiIndex)"

definition applyInkBracketRuby_v0 :: "jsstring \<Rightarrow> jsstring \<Rightarrow> jsstring" where
  "applyInkBracketRuby_v0 w f = (if f = [] \<or> w = f then w else inkBracketLoop w f 0)"

fun xhtmlLoop :: "jsstring \<Rightarrow> jsstring \<Rightarrow> nat \<Rightarrow> jsstring" where
  "xhtmlLoop [] f kanjiIndex = []"
| "xhtmlLoop (c # cs) f kanjiIndex =
     (if isKanji c
      then (if kanjiIndex < length f
            then rubyOpen @ [c] @ rtOpen @ [f ! kanjiIndex] @ rtRubyClose
                   @ xhtmlLoop cs f (kanjiIndex + 1)
            else c # xhtmlLoop cs f kanjiIndex)
      else c # xhtmlLoop cs f kanjiIndex)"

definition applyXhtmlRuby_v0 :: "jsstring \<Rightarrow> jsstring \<Rightarrow> jsstring" where
  "applyXhtmlRuby_v0 w f = (if f = [] \<or> w = f then w else xhtmlLoop w f 0)"

definition applyRuby_v0 :: "FuriganaProcessor \<Rightarrow> jsstring \<Rightarrow> jsstring \<Rightarrow> jsstring" where
  "applyRuby_v0 p s f =
     (if rubyStyle p = InkBracket then applyInkBracketRuby_v0 s f else applyXhtmlRuby_v0 s f)"

text \<open>
  The loops of the earlier \<open>FuriganaProcessor\<close>. The result -1 of \<open>indexOf\<close> is used like a
  position: nothing is copied, the rendering is appended, and the cursor becomes the length of
  the surface minus one.
\<close>

fun subwordLoop_v0 :: "jsstring \<Rightarrow> SubWord list \<Rightarrow> jsstring \<times> nat \<times> FuriganaProcessor
    \<Rightarrow> jsstring \<times> nat \<times> FuriganaProcessor" where
  "subwordLoop_v0 ws [] st = st"
| "subwordLoop_v0 ws (sw # sws) (result, currentPos, p) =
     (let result1 = (case indexOf ws (sub_surface sw) currentPos of
                       None \<Rightarrow> result
                     | Some startPos \<Rightarrow>
                         if startPos > currentPos
                         then result @ substring ws currentPos startPos else result);
          pos1 = (case indexOf ws (sub_surface sw) currentPos of
                    None \<Rightarrow> length (sub_surface sw) - 1
                  | Some startPos \<Rightarrow> startPos + length (sub_surface sw))
      in case sub_furigana sw of
           None \<Rightarrow> subwordLoop_v0 ws sws (result1 @ sub_surface sw, pos1, p)
         | Some f \<Rightarrow>
             if f = [] then subwordLoop_v0 ws sws (result1 @ sub_surface sw, pos1, p)
             else if shouldSkipRuby p (sub_surface sw)
             then subwordLoop_v0 ws sws (result1 @ sub_surface sw, pos1, p)
             else subwordLoop_v0 ws sws (result1 @ applyRuby_v0 p (sub_surface sw) f, pos1,
                    updateSkipInfo p (sub_surface sw)))"

definition applyRubyToWord_v0 :: "FuriganaProcessor \<Rightarrow> Word \<Rightarrow> jsstring \<times> FuriganaProcessor" where
  "applyRubyToWord_v0 p word =
     (case furigana word of
        None \<Rightarrow> (surface word, p)
      | Some f \<Rightarrow>
          if f = [] then (surface word, p)
          else if (case subword word of None \<Rightarrow> False | Some sws \<Rightarrow> length sws > 0)
          then (case subwordLoop_v0 (surface word)
                       (case subword word of None \<Rightarrow> [] | Some sws \<Rightarrow> sws) ([], 0, p) of
                  (result, currentPos, p') \<Rightarrow>
                    (if currentPos < length (surface word)
                     then result @ substringFrom (surface word) currentPos else result, p'))
          else if shouldSkipRuby p (surface word) then (surface word, p)
          else (applyRuby_v0 p (surface word) f, updateSkipInfo p (surface word)))"

fun wordLoop_v0 :: "jsstring \<Rightarrow> Word list \<Rightarrow> jsstring \<times> nat \<times> FuriganaProcessor
    \<Rightarrow> jsstring \<times> nat \<times> FuriganaProcessor" where
  "wordLoop_v0 originalText [] st = st"
| "wordLoop_v0 originalText (word # words) (result, currentPos, p) =
     (case applyRubyToWord_v0 p word of
        (processedWord, p') \<Rightarrow>
          (case indexOf originalText (surface word) currentPos of
             None \<Rightarrow>
               wordLoop_v0 originalText words
                 (result @ processedWord, length (surface word) - 1, p')
           | Some startPos \<Rightarrow>
               wordLoop_v0 originalText words
                 ((if startPos > currentPos
                   then result @ substring originalText currentPos startPos else result)
                    @ processedWord,
                  startPos + length (surface word), p')))"

definition applyRubyFromResponse_v0 ::
    "FuriganaProcessor \<Rightarrow> Word list \<Rightarrow> jsstring \<Rightarrow> jsstring \<times> FuriganaProcessor" where
  "applyRubyFromResponse_v0 p words originalText =
     (case wordLoop_v0 originalText words ([], 0, p) of
        (result, currentPos, p') \<Rightarrow>
          (if currentPos < length originalText
           then result @ substringFrom originalText currentPos else result, p'))"

section \<open>Invariant and sample inputs\<close>


text \<open>A service that answers every request with the one word U+6F22 U+5B57 and its reading.\<close>

definition kanjiWord :: Word where
  "kanjiWord = \<lparr>surface = kanji_surface, furigana = Some kanji_reading, roman = None, subword = None\<rparr>"

definition mockService :: service where
  "mockService t c g = Inr [kanjiWord]"

text \<open>A service that is down.\<close>

definition downService :: service where
  "downService t c g = Inl (Error ''Network Error'')"

text \<open>
  An input whose page-break marker lies across the 4000-byte limit: the word, 3990 letters
  \<open>a\<close>, the marker, the word again. The first code unit of the marker ends at byte 3999.
\<close>

definition filler :: jsstring where
  "filler = replicate 3990 0x61"

definition straddleText :: jsstring where
  "straddleText = kanji_surface @ filler @ pageBreak @ kanji_surface"

definition straddleChunk1 :: jsstring where
  "straddleChunk1 = kanji_surface @ filler @ [0xFF5B]"

definition straddleChunk2 :: jsstring where
  "straddleChunk2 = [0x6539, 0x9801, 0xFF5D] @ kanji_surface"

text \<open>A processor with skip length 10, grade 1 and the ink-bracket style.\<close>

definition p0 :: FuriganaProcessor where
  "p0 = newFuriganaProcessor [] 10 1 InkBracket"

text \<open>
  The text U+5C71 U+5DDD U+5C71 (mountain, river, mountain) and a service that returns its
  three words with their readings.
\<close>

definition mountain :: Word where
  "mountain = \<lparr>surface = [0x5C71], furigana = Some [0x3084, 0x307E], roman = None, subword = None\<rparr>"

definition river :: Word where
  "river = \<lparr>surface = [0x5DDD], furigana = Some [0x304B, 0x308F], roman = None, subword = None\<rparr>"

definition landscapeService :: service where
  "landscapeService t c g = Inr [mountain, river, mountain]"

text \<open>
  The chunk U+FF11 U+FF12 U+6708 U+3068 U+6708 (the twelfth month, written with full-width
  digits, the particle, the moon) and a service that returns the first word with half-width
  digits, so that its surface is not in the chunk, then the particle without a reading and the
  moon with its reading. The second service returns the same words without the first.
\<close>

definition decemberChunk :: jsstring where
  "decemberChunk = [0xFF11, 0xFF12, 0x6708, 0x3068, 0x6708]"

definition december :: Word where
  "december = \<lparr>surface = [0x31, 0x32, 0x6708], furigana = Some [0x31, 0x32, 0x304C, 0x3064],
                roman = None, subword = None\<rparr>"

definition particle :: Word where
  "particle = \<lparr>surface = [0x3068], furigana = None, roman = None, subword = None\<rparr>"

definition moon :: Word where
  "moon = \<lparr>surface = [0x6708], furigana = Some [0x3064, 0x304D], roman = None, subword = None\<rparr>"

definition decemberService :: service where
  "decemberService t c g = Inr [december, particle, moon]"

definition particleMoonService :: service where
  "particleMoonService t c g = Inr [particle, moon]"

section \<open>String primitives\<close>

lemma indexOfFrom_Some:
  "indexOfFrom s xs i = Some j \<Longrightarrow> i \<le> j \<and> j - i \<le> length xs \<and> prefix s (drop (j - i) xs)"
proof (induction xs arbitrary: i)
  case Nil
  then show ?case by (auto split: if_splits)
next
  case (Cons c cs)
  show ?case
  proof (cases "prefix s (c # cs)")
    case True
    with Cons.prems show ?thesis by simp
  next
    case False
    with Cons.prems have "indexOfFrom s cs (Suc i) = Some j" by simp
    from Cons.IH [OF this]
    have "Suc i \<le> j" "j - Suc i \<le> length cs" "prefix s (drop (j - Suc i) cs)"
      by auto
    moreover from \<open>Suc i \<le> j\<close> have "j - i = Suc (j - Suc i)" by simp
    ultimately show ?thesis by simp
  qed
qed

text \<open>A surface found at \<open>start\<close> lies inside the text, at or after the position asked for.\<close>

lemma indexOf_Some:
  assumes "indexOf original s pos = Some start" "pos \<le> length original"
  shows "pos \<le> start" "start + length s \<le> length original"
    "take (length s) (drop start original) = s"
proof -
  from assms have r: "indexOfFrom s (drop pos original) pos = Some start"
    by (simp add: indexOf_def min_def)
  from indexOfFrom_Some [OF r]
  have a: "pos \<le> start" and b: "start - pos \<le> length original - pos"
    and c: "prefix s (drop (start - pos) (drop pos original))" by auto
  from a show "pos \<le> start" .
  from a c have "prefix s (drop start original)" by simp
  then obtain zs where zs: "drop start original = s @ zs" by (auto simp: prefix_def)
  then show "take (length s) (drop start original) = s" by simp
  from zs have "length (drop start original) = length s + length zs" by simp
  moreover from a b assms(2) have "start \<le> length original" by simp
  ultimately show "start + length s \<le> length original" by simp
qed

lemma indexOfFrom_skip:
  "s \<noteq> [] \<Longrightarrow> hd s \<notin> set xs \<Longrightarrow> indexOfFrom s (xs @ ys) i = indexOfFrom s ys (i + length xs)"
proof (induction xs arbitrary: i)
  case Nil
  then show ?case by simp
next
  case (Cons x xs)
  then have "\<not> prefix s (x # xs @ ys)" by (cases s) auto
  with Cons show ?case by simp
qed

lemma substring_in_range:
  "a \<le> b \<Longrightarrow> b \<le> length original \<Longrightarrow> substring original a b = take (b - a) (drop a original)"
  by (simp add: substring_def Let_def min_def max_def)

lemma splitFrom_nonempty: "splitFrom sep piece xs \<noteq> []"
  by (induction sep piece xs rule: splitFrom.induct) auto

lemma join_Cons: "ys \<noteq> [] \<Longrightarrow> join (x # ys) sep = x @ sep @ join ys sep"
  by (cases ys) auto

lemma splitFrom_join:
  "sep \<noteq> [] \<Longrightarrow> join (splitFrom sep piece xs) sep = piece @ xs"
proof (induction sep piece xs rule: splitFrom.induct)
  case (1 sep piece)
  then show ?case by simp
next
  case (2 sep piece c cs)
  show ?case
  proof (cases "prefix sep (c # cs)")
    case True
    then obtain zs where zs: "c # cs = sep @ zs" by (auto simp: prefix_def)
    with 2 True have d: "drop (length sep - 1) cs = zs"
      by (cases sep) auto
    from 2 True d have ih: "join (splitFrom sep [] zs) sep = zs" by simp
    from "2.prems" True d have "splitFrom sep piece (c # cs) = piece # splitFrom sep [] zs"
      by simp
    then have "join (splitFrom sep piece (c # cs)) sep = piece @ sep @ zs"
      by (simp add: join_Cons splitFrom_nonempty ih)
    with zs show ?thesis by simp
  next
    case False
    with 2 show ?thesis by simp
  qed
qed

lemma join_singletons: "join (map (\<lambda>c. [c]) xs) [] = xs"
  by (induction xs rule: induct_list012) auto

text \<open>Splitting at a separator and joining with it gives the string back.\<close>

lemma split_join: "join (split original sep) sep = original"
  by (simp add: split_def splitFrom_join join_singletons)

section \<open>The chunk splitter\<close>

lemma splitLoop_concat:
  "splitLoop m xs (chunks, cur, len) = (chunks', cur', len') \<Longrightarrow>
     concat chunks' @ cur' = concat chunks @ cur @ xs"
  by (induction xs arbitrary: chunks cur len) (auto split: if_splits)

lemma splitTextIntoChunks_concat: "concat (splitTextIntoChunks original maxLength) = original"
proof -
  obtain chunks cur len where r: "splitLoop maxLength original ([], [], 0) = (chunks, cur, len)"
    by (cases "splitLoop maxLength original ([], [], 0)") auto
  from splitLoop_concat [OF r] have "concat chunks @ cur = original" by simp
  with r show ?thesis by (auto simp: splitTextIntoChunks_def)
qed

lemma splitLoop_append:
  "splitLoop m (xs @ ys) st = splitLoop m ys (splitLoop m xs st)"
  by (induction xs arbitrary: st) (auto split: prod.splits)

text \<open>While the byte budget is not exceeded, the loop only extends the current chunk.\<close>

lemma splitLoop_fits:
  "len + byteLength xs \<le> m \<Longrightarrow>
     splitLoop m xs (chunks, cur, len) = (chunks, cur @ xs, len + byteLength xs)"
  by (induction xs arbitrary: cur len) (auto simp: byteLength_def)



lemma byteLength_append: "byteLength (xs @ ys) = byteLength xs + byteLength ys"
  by (simp add: byteLength_def)

lemma byteLength_replicate: "byteLength (replicate n c) = n * charLength c"
  by (induction n) (simp_all add: byteLength_def)

section \<open>Fallback on a service error\<close>

lemma tryProcessChunk_error:
  assumes "requestFurigana chunk (clientId p) (grade p) = Inl e"
  shows "tryProcessChunk requestFurigana p chunk
           = (chunk, p\<lparr>requested := requested p @ (if trimIsEmpty chunk then [] else [chunk])\<rparr>)"
  using assms by (cases e) (simp add: tryProcessChunk_def processChunk_def Let_def)

lemma tryProcessChunk_down:
  assumes "\<forall>x c g. isl (requestFurigana x c g)"
  shows "fst (tryProcessChunk requestFurigana p chunk) = chunk"
proof -
  from assms obtain e where "requestFurigana chunk (clientId p) (grade p) = Inl e"
    by (metis sum.collapse(1))
  from tryProcessChunk_error [of requestFurigana chunk p e] this show ?thesis by simp
qed

lemma processParts_down:
  assumes "\<forall>x c g. isl (requestFurigana x c g)"
  shows "fst (processParts requestFurigana p parts) = join parts pageBreak"
proof (induction parts arbitrary: p)
  case Nil
  then show ?case by simp
next
  case (Cons part parts)
  obtain out1 p1 where t: "(if part \<noteq> [] then tryProcessChunk requestFurigana p part else ([], p))
      = (out1, p1)"
    by (cases "if part \<noteq> [] then tryProcessChunk requestFurigana p part else ([], p)") auto
  have "fst (if part \<noteq> [] then tryProcessChunk requestFurigana p part else ([], p)) = part"
    using tryProcessChunk_down [OF assms] by simp
  with t have o: "out1 = part" by simp
  show ?case
  proof (cases "parts = []")
    case True
    with o t show ?thesis by simp
  next
    case False
    obtain out2 p2 where r: "processParts requestFurigana (p1\<lparr>skipInfo := Map.empty\<rparr>) parts
        = (out2, p2)"
      by (cases "processParts requestFurigana (p1\<lparr>skipInfo := Map.empty\<rparr>) parts") auto
    with Cons.IH [of "p1\<lparr>skipInfo := Map.empty\<rparr>"] have "out2 = join parts pageBreak" by simp
    with o t r False show ?thesis by (simp add: join_Cons)
  qed
qed

lemma processChunks_down:
  assumes "\<forall>x c g. isl (requestFurigana x c g)"
  shows "fst (processChunks requestFurigana p chunks) = concat chunks"
proof (induction chunks arbitrary: p)
  case Nil
  then show ?case by simp
next
  case (Cons chunk chunks)
  obtain out1 p1 where t: "(if includes_str chunk pageBreak
             then processParts requestFurigana p (split chunk pageBreak)
             else tryProcessChunk requestFurigana p chunk) = (out1, p1)"
    by (cases "if includes_str chunk pageBreak
             then processParts requestFurigana p (split chunk pageBreak)
             else tryProcessChunk requestFurigana p chunk") auto
  have "fst (if includes_str chunk pageBreak
             then processParts requestFurigana p (split chunk pageBreak)
             else tryProcessChunk requestFurigana p chunk) = chunk"
    using processParts_down [OF assms] tryProcessChunk_down [OF assms]
    by (simp add: split_join)
  with t have o: "out1 = chunk" by simp
  obtain out2 p2 where r: "processChunks requestFurigana p1 chunks = (out2, p2)"
    by (cases "processChunks requestFurigana p1 chunks") auto
  with Cons.IH [of p1] have "out2 = concat chunks" by simp
  with o t r show ?case by simp
qed

section \<open>Round trip\<close>

text \<open>
  C1: for every input, the chunk texts of \<open>splitTextIntoChunks\<close> joined in order are the
  input again, code unit for code unit. The splitter records no page-break boundaries: the
  markers stay inside the chunk texts. \<open>process\<close> cuts a chunk at its markers and puts the
  marker back between the parts, which gives the chunk again; so an input whose every request
  fails comes out of \<open>process\<close> unchanged.
\<close>

theorem chunk_round_trip:
  "concat (splitTextIntoChunks original maxLength) = original
   \<and> join (split chunk pageBreak) pageBreak = chunk
   \<and> ((\<forall>x c g. isl (requestFurigana x c g)) \<longrightarrow> fst (process requestFurigana p original) = original)"
  by (simp add: splitTextIntoChunks_concat split_join process_def processChunks_down)

theorem chunk_round_trip_witness:
  "concat (splitTextIntoChunks (kanji_surface @ pageBreak @ kanji_surface) 7)
     = kanji_surface @ pageBreak @ kanji_surface
   \<and> join (split (kanji_surface @ pageBreak @ kanji_surface) pageBreak) pageBreak
     = kanji_surface @ pageBreak @ kanji_surface
   \<and> fst (process downService p0 (kanji_surface @ pageBreak @ kanji_surface))
     = kanji_surface @ pageBreak @ kanji_surface"
  using chunk_round_trip [of "kanji_surface @ pageBreak @ kanji_surface" 7
      "kanji_surface @ pageBreak @ kanji_surface" downService p0]
  by (simp add: downService_def)

section \<open>Fallback\<close>

text \<open>
  C4: if the service fails for a chunk, \<open>process\<close> adds the raw chunk to the result, the
  table \<open>skipInfo\<close> is as before the chunk, and the remaining chunks are processed from
  that processor (only the log of requests has grown). The same holds for a part of a chunk
  cut at a marker; there the marker that follows the part clears the table, as it does after
  a part that succeeded.
\<close>

theorem service_error_falls_back:
  assumes "requestFurigana chunk (clientId p) (grade p) = Inl e"
  shows "fst (tryProcessChunk requestFurigana p chunk) = chunk
       \<and> skipInfo (snd (tryProcessChunk requestFurigana p chunk)) = skipInfo p
       \<and> (\<not> includes_str chunk pageBreak \<longrightarrow>
            processChunks requestFurigana p (chunk # chunks)
              = (case processChunks requestFurigana
                        (p\<lparr>requested := requested p @ (if trimIsEmpty chunk then [] else [chunk])\<rparr>)
                        chunks
                 of (out, p') \<Rightarrow> (chunk @ out, p')))
       \<and> (chunk \<noteq> [] \<and> parts \<noteq> [] \<longrightarrow>
            processParts requestFurigana p (chunk # parts)
              = (case processParts requestFurigana
                        (p\<lparr>requested := requested p @ (if trimIsEmpty chunk then [] else [chunk]),
                           skipInfo := Map.empty\<rparr>)
                        parts
                 of (out, p') \<Rightarrow> (chunk @ pageBreak @ out, p')))"
  using tryProcessChunk_error [of requestFurigana chunk p e] assms by simp

text \<open>
  A service that fails on the first chunk only: the first chunk is copied, the second is
  glossed.
\<close>

theorem service_error_falls_back_witness:
  "fst (processChunks (\<lambda>t c g. if t = [0x5C71] then Inl (Error ''timeout'') else Inr [kanjiWord])
          p0 [[0x5C71], kanji_surface])
     = [0x5C71] @ applyInkBracketRuby kanji_surface kanji_reading"
  using service_error_falls_back
    [of "\<lambda>t c g. if t = [0x5C71] then Inl (Error ''timeout'') else Inr [kanjiWord]"
        "[0x5C71]" p0 "Error ''timeout''" "[kanji_surface]"]
  by (simp add: includes_str_def indexOf_def pageBreak_def kanji_surface_def p0_def
      newFuriganaProcessor_def trimIsEmpty_def isWhiteSpace_def tryProcessChunk_def
      processChunk_def applyRubyFromResponse_def applyRubyToWord_def kanjiWord_def
      kanji_reading_def shouldSkipRuby_def isKanji_def skipActive_def applyRuby_def
      applyInkBracketRuby_def)

section \<open>The merge step\<close>

lemma merge_reconstructs_from:
  "cursor \<le> length chunkText \<Longrightarrow>
     concat (map runText (merge chunkText cursor words)) = drop cursor chunkText"
proof (induction words arbitrary: cursor)
  case Nil
  then show ?case by simp
next
  case (Cons word words)
  show ?case
  proof (cases "indexOf chunkText (surface word) cursor")
    case None
    with Cons show ?thesis by simp
  next
    case (Some start)
    note io = indexOf_Some [OF Some Cons.prems]
    let ?n = "length (surface word)"
    have rest: "concat (map runText (merge chunkText (start + ?n) words))
        = drop (start + ?n) chunkText"
      using Cons.IH io(2) by simp
    have "drop cursor chunkText
        = take (start - cursor) (drop cursor chunkText) @ drop (start - cursor) (drop cursor chunkText)"
      by (rule append_take_drop_id [symmetric])
    also have "drop (start - cursor) (drop cursor chunkText) = drop start chunkText"
      using io(1) by simp
    also have "drop start chunkText = take ?n (drop start chunkText) @ drop ?n (drop start chunkText)"
      by (rule append_take_drop_id [symmetric])
    also have "take ?n (drop start chunkText) = surface word" using io(3) .
    also have "drop ?n (drop start chunkText) = drop (start + ?n) chunkText"
      by (simp add: add.commute)
    finally have split3: "drop cursor chunkText
        = take (start - cursor) (drop cursor chunkText) @ surface word @ drop (start + ?n) chunkText" .
    show ?thesis
    proof (cases "start > cursor")
      case True
      with Some rest split3 show ?thesis by simp
    next
      case False
      with io(1) have "start = cursor" by simp
      with Some rest split3 show ?thesis by simp
    qed
  qed
qed

text \<open>The loop of the source renders exactly the runs of \<open>merge\<close>.\<close>

lemma wordLoop_renderRuns:
  "currentPos \<le> length originalText \<Longrightarrow>
   (case wordLoop originalText words (result, currentPos, p) of
      (r, cp, p') \<Rightarrow> (if cp < length originalText then r @ substringFrom originalText cp else r, p'))
   = (case renderRuns p (merge originalText currentPos words) of (out, p') \<Rightarrow> (result @ out, p'))"
proof (induction words arbitrary: result currentPos p)
  case Nil
  then show ?case by (simp add: substringFrom_def)
next
  case (Cons word words)
  obtain t p1 where ap: "applyRubyToWord p word = (t, p1)" by (cases "applyRubyToWord p word")
  show ?case
  proof (cases "indexOf originalText (surface word) currentPos")
    case None
    with ap Cons show ?thesis by simp
  next
    case (Some start)
    note io = indexOf_Some [OF Some Cons.prems]
    from io(2) have le: "start + length (surface word) \<le> length originalText" .
    show ?thesis
    proof (cases "start > currentPos")
      case True
      then have "substring originalText currentPos start
          = take (start - currentPos) (drop currentPos originalText)"
        using le by (simp add: substring_in_range)
      with True Some ap Cons.IH [OF le] show ?thesis
        by (simp split: prod.splits)
    next
      case False
      with Some ap Cons.IH [OF le] show ?thesis
        by (simp split: prod.splits)
    qed
  qed
qed

lemma applyRubyFromResponse_renderRuns:
  "applyRubyFromResponse p words originalText = renderRuns p (merge originalText 0 words)"
  using wordLoop_renderRuns [of 0 originalText words "[]" p]
  by (simp add: applyRubyFromResponse_def split: prod.splits)

text \<open>
  C5: for every chunk text and word list, the runs of the merge step, each taken with the
  text it stands for (a gloss candidate with its surface), concatenate to the chunk text; and
  \<open>applyRubyFromResponse\<close> renders exactly these runs, whatever the processor (and so the
  table of suppressed kanji) is.
\<close>

theorem merge_reconstructs_chunk:
  "concat (map runText (merge chunkText 0 words)) = chunkText
   \<and> applyRubyFromResponse p words chunkText = renderRuns p (merge chunkText 0 words)"
  using merge_reconstructs_from [of 0 chunkText words] applyRubyFromResponse_renderRuns
  by simp

theorem merge_reconstructs_chunk_witness:
  "merge (0x306F # kanji_surface @ [0x3067, 0x3059]) 0 [kanjiWord, mountain]
     = [PlainCopy [0x306F], GlossCandidate kanjiWord, AlignmentMiss mountain,
        PlainCopy [0x3067, 0x3059]]
   \<and> concat (map runText (merge (0x306F # kanji_surface @ [0x3067, 0x3059]) 0 [kanjiWord, mountain]))
     = 0x306F # kanji_surface @ [0x3067, 0x3059]"
  using merge_reconstructs_chunk [of "0x306F # kanji_surface @ [0x3067, 0x3059]"
      "[kanjiWord, mountain]" p0]
  by (simp add: kanji_surface_def kanjiWord_def mountain_def indexOf_def)

text \<open>
  On a miss the loop goes on to the next word with the same result and the same cursor; but
  the word has been through \<open>applyRubyToWord\<close> before the search, so the processor carried
  on is the one after that call, with the kanji of the missed word recorded.
\<close>

lemma wordLoop_miss:
  assumes "indexOf originalText (surface word) currentPos = None"
  shows "wordLoop originalText (word # words) (result, currentPos, p)
           = wordLoop originalText words (result, currentPos, snd (applyRubyToWord p word))"
  using assms by (simp split: prod.splits)

lemma wordLoop_miss_example:
  "indexOf kanji_surface (surface river) 0 = None
   \<and> fst (applyRubyFromResponse p0 [river, kanjiWord] kanji_surface)
       = applyInkBracketRuby kanji_surface kanji_reading"
  using wordLoop_miss [of kanji_surface river 0 "[kanjiWord]" "[]" p0]
  by (simp add: kanji_surface_def river_def indexOf_def applyRubyFromResponse_def
      applyRubyToWord_def kanjiWord_def kanji_reading_def shouldSkipRuby_def isKanji_def
      skipActive_def applyRuby_def applyInkBracketRuby_def p0_def newFuriganaProcessor_def
      updateSkipInfo_def)

text \<open>
  C6, at the chunk \<open>decemberChunk\<close> with skip length 10: the surface of the first word is
  not found in the chunk, and the chunk comes out whole, so the miss does not stop the chunk
  and the cursor is not moved; but the moon at the end has no gloss, because the missed word
  has recorded its kanji. With the same words without the missed one, the moon is glossed: the
  missed word is not simply skipped.
\<close>

theorem missed_word_suppresses_later_gloss:
  "indexOf decemberChunk (surface december) 0 = None
   \<and> fst (process decemberService p0 decemberChunk) = decemberChunk
   \<and> fst (process particleMoonService p0 decemberChunk)
       = decemberChunk @ [0x300A, 0x3064, 0x304D, 0x300B]"
  by (simp add: process_def splitTextIntoChunks_def charLength_def pageBreak_def
      includes_str_def indexOf_def tryProcessChunk_def processChunk_def trimIsEmpty_def
      isWhiteSpace_def decemberService_def particleMoonService_def decemberChunk_def
      december_def particle_def moon_def p0_def newFuriganaProcessor_def
      applyRubyFromResponse_def applyRubyToWord_def shouldSkipRuby_def isKanji_def skipActive_def
      updateSkipInfo_def applyRuby_def applyInkBracketRuby_def substring_def substringFrom_def)

section \<open>Style fidelity\<close>

text \<open>
  C7: word-level rendering of the surface U+6F22 U+5B57 with the reading U+304B U+3093 U+3058
  gives the surface followed by the reading between U+300A and U+300B in the ink-bracket style,
  and \<open><ruby>\<close> surface \<open><rt>\<close> reading \<open></rt></ruby>\<close> in the XHTML style; a new
  processor set to the style renders the word (which has no subwords) in the same way.
\<close>

theorem word_level_style_fidelity:
  "applyInkBracketRuby kanji_surface kanji_reading
     = [0x6F22, 0x5B57, 0x300A, 0x304B, 0x3093, 0x3058, 0x300B]
   \<and> applyXhtmlRuby kanji_surface kanji_reading
     = [0x3C, 0x72, 0x75, 0x62, 0x79, 0x3E, 0x6F22, 0x5B57, 0x3C, 0x72, 0x74, 0x3E,
        0x304B, 0x3093, 0x3058, 0x3C, 0x2F, 0x72, 0x74, 0x3E, 0x3C, 0x2F, 0x72, 0x75, 0x62, 0x79, 0x3E]
   \<and> fst (applyRubyToWord (newFuriganaProcessor cid n g InkBracket) kanjiWord)
     = [0x6F22, 0x5B57, 0x300A, 0x304B, 0x3093, 0x3058, 0x300B]
   \<and> fst (applyRubyToWord (newFuriganaProcessor cid n g XHTML) kanjiWord)
     = [0x3C, 0x72, 0x75, 0x62, 0x79, 0x3E, 0x6F22, 0x5B57, 0x3C, 0x72, 0x74, 0x3E,
        0x304B, 0x3093, 0x3058, 0x3C, 0x2F, 0x72, 0x74, 0x3E, 0x3C, 0x2F, 0x72, 0x75, 0x62, 0x79, 0x3E]"
  by (simp add: applyInkBracketRuby_def applyXhtmlRuby_def kanji_surface_def kanji_reading_def
      rubyOpen_def rtOpen_def rtRubyClose_def applyRubyToWord_def kanjiWord_def
      newFuriganaProcessor_def shouldSkipRuby_def skipActive_def applyRuby_def list_ex_iff)

section \<open>The table is never counted down\<close>



















section \<open>Chunk-size boundary\<close>






text \<open>
  A surrogate pair is counted as two code units of three bytes each: a text of one such
  character, four bytes in UTF-8, is cut between its two code units when the maximum is 4.
\<close>

lemma surrogate_pair_is_cut:
  "utf8Length [0xD83D, 0xDE00] = 4
   \<and> splitTextIntoChunks [0xD83D, 0xDE00] 4 = [[0xD83D], [0xDE00]]"
  by (simp add: isHighSurrogate_def isLowSurrogate_def splitTextIntoChunks_def charLength_def)

section \<open>What reaches the service\<close>

text \<open>
  \<open>includes\<close> holds exactly when the string occurs at some position; the parts that
  \<open>split\<close> cuts at a separator do not contain the separator.
\<close>

lemma indexOfFrom_None:
  "indexOfFrom s xs i = None \<longleftrightarrow> (\<forall>j \<le> length xs. \<not> prefix s (drop j xs))"
proof (induction xs arbitrary: i)
  case Nil
  then show ?case by simp
next
  case (Cons c cs)
  show ?case
  proof (cases "prefix s (c # cs)")
    case True
    then have "\<exists>j \<le> length (c # cs). prefix s (drop j (c # cs))"
      by (intro exI [of _ 0]) simp
    with True show ?thesis by auto
  next
    case False
    have "(\<forall>j \<le> length (c # cs). \<not> prefix s (drop j (c # cs)))
        \<longleftrightarrow> (\<forall>j \<le> length cs. \<not> prefix s (drop j cs))"
    proof
      assume a: "\<forall>j \<le> length (c # cs). \<not> prefix s (drop j (c # cs))"
      show "\<forall>j \<le> length cs. \<not> prefix s (drop j cs)"
      proof (intro allI impI)
        fix j assume "j \<le> length cs"
        with a have "\<not> prefix s (drop (Suc j) (c # cs))" by (metis Suc_le_mono length_Cons)
        then show "\<not> prefix s (drop j cs)" by simp
      qed
    next
      assume a: "\<forall>j \<le> length cs. \<not> prefix s (drop j cs)"
      show "\<forall>j \<le> length (c # cs). \<not> prefix s (drop j (c # cs))"
      proof (intro allI impI)
        fix j assume "j \<le> length (c # cs)"
        with a False show "\<not> prefix s (drop j (c # cs))" by (cases j) auto
      qed
    qed
    with False Cons.IH [of "Suc i"] show ?thesis by simp
  qed
qed

lemma includes_str_iff:
  "includes_str original s \<longleftrightarrow> (\<exists>j \<le> length original. prefix s (drop j original))"
  using indexOfFrom_None [of s original 0] by (auto simp: includes_str_def indexOf_def)

lemma splitFrom_pieces:
  "sep \<noteq> [] \<Longrightarrow> \<forall>i < length piece. \<not> prefix sep (drop i (piece @ xs)) \<Longrightarrow>
     list_all (\<lambda>q. \<not> includes_str q sep) (splitFrom sep piece xs)"
proof (induction sep piece xs rule: splitFrom.induct)
  case (1 sep piece)
  have "\<not> prefix sep (drop j piece)" if "j \<le> length piece" for j
  proof (cases "j < length piece")
    case True
    with 1 show ?thesis by simp
  next
    case False
    with that 1 show ?thesis by simp
  qed
  then show ?case by (simp add: includes_str_iff)
next
  case (2 sep piece c cs)
  show ?case
  proof (cases "prefix sep (c # cs)")
    case True
    have "\<not> prefix sep (drop j piece)" if "j \<le> length piece" for j
    proof (cases "j < length piece")
      case True
      with "2.prems" have "\<not> prefix sep (drop j piece @ c # cs)" by simp
      then show ?thesis using prefix_prefix by blast
    next
      case False
      with that "2.prems" show ?thesis by simp
    qed
    then have "\<not> includes_str piece sep" by (simp add: includes_str_iff)
    moreover from 2 True
    have "list_all (\<lambda>q. \<not> includes_str q sep) (splitFrom sep [] (drop (length sep - 1) cs))"
      by simp
    ultimately show ?thesis using True "2.prems" by simp
  next
    case False
    have "\<not> prefix sep (drop i ((piece @ [c]) @ cs))" if "i < length (piece @ [c])" for i
    proof (cases "i < length piece")
      case True
      with "2.prems" show ?thesis by simp
    next
      case False
      with that have "i = length piece" by simp
      with \<open>\<not> prefix sep (c # cs)\<close> show ?thesis by simp
    qed
    with 2 False show ?thesis by simp
  qed
qed

lemma split_parts_without_marker:
  "list_all (\<lambda>q. \<not> includes_str q pageBreak) (split chunk pageBreak)"
  using splitFrom_pieces [of pageBreak "[]" chunk]
  by (simp add: split_def pageBreak_def)

text \<open>
  Rendering does not touch the log of requests; \<open>processChunk\<close> adds the chunk it sends.
\<close>

lemma requested_updateSkipInfo: "requested (updateSkipInfo p s) = requested p"
  by (simp add: updateSkipInfo_def)

lemma requested_subwordLoop:
  "requested (snd (snd (subwordLoop ws sws (result, currentPos, p)))) = requested p"
  by (induction sws arbitrary: result currentPos p)
     (simp_all add: Let_def requested_updateSkipInfo split: option.splits)

lemma requested_applyRubyToWord: "requested (snd (applyRubyToWord p word)) = requested p"
proof -
  have "requested p' = requested p" if "subwordLoop ws sws (r, c, p) = (r', c', p')"
    for ws sws r c r' c' p'
    using requested_subwordLoop [of ws sws r c p] that by simp
  then show ?thesis
    by (auto simp: applyRubyToWord_def requested_updateSkipInfo split: option.splits prod.splits)
qed

lemma requested_wordLoop:
  "requested (snd (snd (wordLoop original words (result, currentPos, p)))) = requested p"
proof (induction words arbitrary: result currentPos p)
  case Nil
  then show ?case by simp
next
  case (Cons word words)
  obtain t p1 where ap: "applyRubyToWord p word = (t, p1)" by (cases "applyRubyToWord p word")
  with requested_applyRubyToWord [of p word] have "requested p1 = requested p" by simp
  with ap Cons.IH show ?case by (simp split: option.splits)
qed

lemma requested_applyRubyFromResponse:
  "requested (snd (applyRubyFromResponse p words original)) = requested p"
  using requested_wordLoop [of original words "[]" 0 p]
  by (auto simp: applyRubyFromResponse_def split: prod.splits)

lemma requested_tryProcessChunk:
  "requested (snd (tryProcessChunk requestFurigana p chunk))
     = requested p @ (if trimIsEmpty chunk then [] else [chunk])"
proof -
  have "requested p' = r" if "applyRubyFromResponse (p\<lparr>requested := r\<rparr>) words chunk = (out, p')"
    for r words out p'
    using requested_applyRubyFromResponse [of "p\<lparr>requested := r\<rparr>" words chunk] that by simp
  then show ?thesis
    by (auto simp: tryProcessChunk_def processChunk_def Let_def
        split: sum.splits error.splits prod.splits)
qed

lemma requested_processParts:
  "list_all (\<lambda>q. \<not> includes_str q pageBreak) parts \<Longrightarrow>
     \<exists>new. requested (snd (processParts requestFurigana p parts)) = requested p @ new
       \<and> list_all (\<lambda>q. \<not> includes_str q pageBreak) new"
proof (induction parts arbitrary: p)
  case Nil
  then show ?case by simp
next
  case (Cons part parts)
  obtain out1 p1 where t: "(if part \<noteq> [] then tryProcessChunk requestFurigana p part else ([], p))
      = (out1, p1)"
    by (cases "if part \<noteq> [] then tryProcessChunk requestFurigana p part else ([], p)") auto
  have "requested (snd (if part \<noteq> [] then tryProcessChunk requestFurigana p part else ([], p)))
      = requested p @ (if part \<noteq> [] \<and> \<not> trimIsEmpty part then [part] else [])"
    by (simp add: requested_tryProcessChunk)
  with t have r1: "requested p1 = requested p @ (if part \<noteq> [] \<and> \<not> trimIsEmpty part then [part] else [])"
    by simp
  show ?case
  proof (cases "parts = []")
    case True
    with t r1 Cons.prems show ?thesis by simp
  next
    case False
    obtain out2 p2 where r: "processParts requestFurigana (p1\<lparr>skipInfo := Map.empty\<rparr>) parts
        = (out2, p2)"
      by (cases "processParts requestFurigana (p1\<lparr>skipInfo := Map.empty\<rparr>) parts") auto
    from Cons.IH [of "p1\<lparr>skipInfo := Map.empty\<rparr>"] Cons.prems r
    obtain new where "requested p2 = requested p1 @ new"
      "list_all (\<lambda>q. \<not> includes_str q pageBreak) new" by auto
    with t r r1 False Cons.prems show ?thesis by simp
  qed
qed

lemma requested_processChunks:
  "\<exists>new. requested (snd (processChunks requestFurigana p chunks)) = requested p @ new
       \<and> list_all (\<lambda>q. \<not> includes_str q pageBreak) new"
proof (induction chunks arbitrary: p)
  case Nil
  then show ?case by simp
next
  case (Cons chunk chunks)
  let ?step = "if includes_str chunk pageBreak
             then processParts requestFurigana p (split chunk pageBreak)
             else tryProcessChunk requestFurigana p chunk"
  obtain out1 p1 where t: "?step = (out1, p1)" by (cases ?step) auto
  have "\<exists>new. requested (snd ?step) = requested p @ new
       \<and> list_all (\<lambda>q. \<not> includes_str q pageBreak) new"
    using requested_processParts [OF split_parts_without_marker, of requestFurigana p chunk]
    by (simp add: requested_tryProcessChunk)
  with t obtain new1 where n1: "requested p1 = requested p @ new1"
    "list_all (\<lambda>q. \<not> includes_str q pageBreak) new1" by auto
  obtain out2 p2 where r: "processChunks requestFurigana p1 chunks = (out2, p2)"
    by (cases "processChunks requestFurigana p1 chunks") auto
  with Cons.IH [of p1] obtain new2 where n2: "requested p2 = requested p1 @ new2"
    "list_all (\<lambda>q. \<not> includes_str q pageBreak) new2" by auto
  from t r n1 n2 show ?case by simp
qed

text \<open>
  Whatever the input and the service, no text passed to \<open>requestFurigana\<close> contains a whole
  page-break marker.
\<close>

lemma whole_marker_never_requested:
  "\<exists>new. requested (snd (process requestFurigana p original)) = requested p @ new
       \<and> list_all (\<lambda>q. \<not> includes_str q pageBreak) new"
  by (simp add: process_def requested_processChunks)

section \<open>A page-break marker across the chunk limit\<close>

lemma byteLength_filler: "byteLength filler = 3990"
  by (simp add: filler_def byteLength_replicate charLength_def)

text \<open>The byte limit falls after the first code unit of the marker.\<close>

lemma straddle_chunks: "splitTextIntoChunks straddleText 4000 = [straddleChunk1, straddleChunk2]"
proof -
  have t: "straddleText = straddleChunk1 @ straddleChunk2"
    by (simp add: straddleText_def straddleChunk1_def straddleChunk2_def pageBreak_def)
  have "byteLength kanji_surface = 6" "byteLength [0xFF5B] = 3"
    by (simp_all add: byteLength_def kanji_surface_def charLength_def)
  then have b1: "byteLength straddleChunk1 = 3999"
    by (simp add: straddleChunk1_def byteLength_append byteLength_filler)
  have "splitLoop 4000 straddleChunk1 ([], [], 0)
      = ([], [] @ straddleChunk1, 0 + byteLength straddleChunk1)"
    by (intro splitLoop_fits) (simp add: b1)
  then have s1: "splitLoop 4000 straddleChunk1 ([], [], 0) = ([], straddleChunk1, 3999)"
    by (simp add: b1)
  have s2: "splitLoop 4000 straddleChunk2 ([], straddleChunk1, 3999)
      = ([straddleChunk1], straddleChunk2, 15)"
    by (simp add: straddleChunk2_def kanji_surface_def charLength_def)
  have "splitLoop 4000 straddleText ([], [], 0) = ([straddleChunk1], straddleChunk2, 15)"
    by (simp add: t splitLoop_append s1 s2)
  then show ?thesis
    by (simp add: splitTextIntoChunks_def) (simp add: straddleChunk2_def)
qed

lemma chunk1_no_marker: "\<not> includes_str straddleChunk1 pageBreak"
proof -
  have "hd pageBreak \<notin> set (kanji_surface @ filler)"
    by (simp add: pageBreak_def kanji_surface_def filler_def)
  then have "indexOfFrom pageBreak ((kanji_surface @ filler) @ [0xFF5B]) 0
             = indexOfFrom pageBreak [0xFF5B] (0 + length (kanji_surface @ filler))"
    by (intro indexOfFrom_skip) (simp_all add: pageBreak_def)
  then show ?thesis
    by (simp add: includes_str_def indexOf_def straddleChunk1_def) (simp add: pageBreak_def)
qed

lemma chunk2_no_marker: "\<not> includes_str straddleChunk2 pageBreak"
  by (simp add: includes_str_def indexOf_def straddleChunk2_def pageBreak_def kanji_surface_def)

lemma surface_kanjiWord: "surface kanjiWord = kanji_surface" "length kanji_surface = 2"
  by (simp_all add: kanjiWord_def kanji_surface_def)

text \<open>The first chunk: the word is glossed and recorded, the rest is copied.\<close>

lemma chunk1_result:
  "tryProcessChunk mockService p0 straddleChunk1
     = (applyInkBracketRuby kanji_surface kanji_reading @ filler @ [0xFF5B],
        updateSkipInfo (p0\<lparr>requested := [straddleChunk1]\<rparr>) kanji_surface)"
proof -
  let ?q = "p0\<lparr>requested := [straddleChunk1]\<rparr>"
  have c: "straddleChunk1 = 0x6F22 # 0x5B57 # (filler @ [0xFF5B])"
    by (simp add: straddleChunk1_def kanji_surface_def)
  have nb: "\<not> trimIsEmpty straddleChunk1"
    by (simp add: c trimIsEmpty_def isWhiteSpace_def)
  have io: "indexOf straddleChunk1 kanji_surface 0 = Some 0"
    by (simp add: c indexOf_def kanji_surface_def)
  have len: "2 < length straddleChunk1" by (simp add: c)
  have dr: "drop 2 straddleChunk1 = filler @ [0xFF5B]" by (simp add: c)
  have ap: "applyRubyToWord ?q kanjiWord
      = (applyInkBracketRuby kanji_surface kanji_reading, updateSkipInfo ?q kanji_surface)"
    by (simp add: applyRubyToWord_def kanjiWord_def kanji_reading_def shouldSkipRuby_def
        skipActive_def p0_def newFuriganaProcessor_def applyRuby_def list_ex_iff)
  have wl: "wordLoop straddleChunk1 [kanjiWord] ([], 0, ?q)
      = (applyInkBracketRuby kanji_surface kanji_reading, 2, updateSkipInfo ?q kanji_surface)"
    by (simp add: ap io surface_kanjiWord)
  have ar: "applyRubyFromResponse ?q [kanjiWord] straddleChunk1
      = (applyInkBracketRuby kanji_surface kanji_reading @ filler @ [0xFF5B],
         updateSkipInfo ?q kanji_surface)"
    by (simp add: applyRubyFromResponse_def wl len dr substringFrom_def del: wordLoop.simps)
  have rq: "requested p0 = []" by (simp add: p0_def newFuriganaProcessor_def)
  show ?thesis
    by (simp add: tryProcessChunk_def processChunk_def mockService_def nb rq ar)
qed

text \<open>The second chunk: the table still holds the kanji of the word, so it is not glossed.\<close>

lemma chunk2_result:
  "tryProcessChunk mockService (updateSkipInfo (p0\<lparr>requested := [straddleChunk1]\<rparr>) kanji_surface)
       straddleChunk2
     = (straddleChunk2,
        (updateSkipInfo (p0\<lparr>requested := [straddleChunk1]\<rparr>) kanji_surface)
           \<lparr>requested := [straddleChunk1, straddleChunk2]\<rparr>)"
proof -
  let ?q = "updateSkipInfo (p0\<lparr>requested := [straddleChunk1]\<rparr>) kanji_surface"
  let ?q1 = "?q\<lparr>requested := [straddleChunk1, straddleChunk2]\<rparr>"
  have rq: "requested ?q = [straddleChunk1]" "clientId ?q = []" "grade ?q = 1"
    by (simp_all add: updateSkipInfo_def p0_def newFuriganaProcessor_def)
  have "skipInfo ?q 0x6F22 = Some 10"
    by (simp add: updateSkipInfo_def p0_def newFuriganaProcessor_def kanji_surface_def isKanji_def)
  then have sk: "shouldSkipRuby ?q1 kanji_surface"
    by (simp add: shouldSkipRuby_def skipActive_def kanji_surface_def isKanji_def)
  have ap: "applyRubyToWord ?q1 kanjiWord = (kanji_surface, ?q1)"
    using sk by (simp add: applyRubyToWord_def kanjiWord_def kanji_reading_def)
  have nb: "\<not> trimIsEmpty straddleChunk2"
    by (simp add: straddleChunk2_def trimIsEmpty_def isWhiteSpace_def)
  have io: "indexOf straddleChunk2 kanji_surface 0 = Some 3"
    by (simp add: straddleChunk2_def indexOf_def kanji_surface_def)
  have sb: "substring straddleChunk2 0 3 = [0x6539, 0x9801, 0xFF5D]"
    by (simp add: straddleChunk2_def substring_def)
  have len: "length straddleChunk2 = 5" by (simp add: straddleChunk2_def kanji_surface_def)
  have wl: "wordLoop straddleChunk2 [kanjiWord] ([], 0, ?q1) = (straddleChunk2, 5, ?q1)"
    by (simp add: ap io sb surface_kanjiWord) (simp add: straddleChunk2_def)
  have ar: "applyRubyFromResponse ?q1 [kanjiWord] straddleChunk2 = (straddleChunk2, ?q1)"
    by (simp add: applyRubyFromResponse_def wl len del: wordLoop.simps)
  show ?thesis
    by (simp add: tryProcessChunk_def processChunk_def mockService_def nb rq ar)
qed

lemma straddle_process:
  "process mockService p0 straddleText
     = (applyInkBracketRuby kanji_surface kanji_reading @ filler @ pageBreak @ kanji_surface,
        (updateSkipInfo (p0\<lparr>requested := [straddleChunk1]\<rparr>) kanji_surface)
           \<lparr>requested := [straddleChunk1, straddleChunk2]\<rparr>)"
  by (simp add: process_def straddle_chunks chunk1_no_marker chunk2_no_marker chunk1_result
        chunk2_result)
     (simp add: straddleChunk2_def pageBreak_def)

text \<open>
  Inside one chunk the marker does reset the table: the example of the specification, with
  skip length 10, glosses the word again after the marker.
\<close>

lemma page_break_inside_chunk_resets:
  "fst (process mockService p0 (kanji_surface @ [0x306F] @ kanji_surface @ pageBreak @ kanji_surface))
     = applyInkBracketRuby kanji_surface kanji_reading @ [0x306F] @ kanji_surface @ pageBreak
         @ applyInkBracketRuby kanji_surface kanji_reading"
  by (simp add: process_def splitTextIntoChunks_def charLength_def kanji_surface_def pageBreak_def
      includes_str_def indexOf_def split_def tryProcessChunk_def processChunk_def trimIsEmpty_def
      isWhiteSpace_def mockService_def kanjiWord_def p0_def newFuriganaProcessor_def
      applyRubyFromResponse_def applyRubyToWord_def shouldSkipRuby_def isKanji_def skipActive_def
      updateSkipInfo_def applyRuby_def applyInkBracketRuby_def substring_def substringFrom_def
      kanji_reading_def)

text \<open>
  C3, at the input \<open>straddleText\<close>: the word is glossed before the marker, the marker is
  passed, and the same word right after the marker comes out without a gloss, because the
  table was not cleared.
\<close>

theorem straddling_marker_does_not_reset:
  "fst (process mockService p0 straddleText)
     = applyInkBracketRuby kanji_surface kanji_reading @ filler @ pageBreak @ kanji_surface"
  by (simp add: straddle_process)

text \<open>
  C8, at the input \<open>straddleText\<close>: the two texts sent to the service are the chunks as
  split; the first ends with the opening brace of the marker and the second begins with the
  other three code units of the marker.
\<close>

theorem straddling_marker_is_sent:
  "requested (snd (process mockService p0 straddleText))
     = [kanji_surface @ filler @ [0xFF5B], [0x6539, 0x9801, 0xFF5D] @ kanji_surface]
   \<and> straddleText = kanji_surface @ filler @ [0xFF5B, 0x6539, 0x9801, 0xFF5D] @ kanji_surface"
proof -
  have "requested (snd (process mockService p0 straddleText)) = [straddleChunk1, straddleChunk2]"
    by (simp add: straddle_process)
  then show ?thesis
    by (simp add: straddleChunk1_def straddleChunk2_def) (simp add: straddleText_def pageBreak_def)
qed

section \<open>The suppression window\<close>

text \<open>
  C2, at skip length 1 and the text mountain, river, mountain: the first mountain is glossed,
  the river is glossed (one kanji-bearing character emitted since), and the second mountain
  still comes out without a gloss.
\<close>

theorem window_never_elapses:
  "fst (process landscapeService (newFuriganaProcessor [] 1 1 InkBracket) [0x5C71, 0x5DDD, 0x5C71])
     = [0x5C71, 0x300A, 0x3084, 0x307E, 0x300B, 0x5DDD, 0x300A, 0x304B, 0x308F, 0x300B, 0x5C71]"
  by (simp add: process_def splitTextIntoChunks_def charLength_def pageBreak_def
      includes_str_def indexOf_def tryProcessChunk_def processChunk_def trimIsEmpty_def
      isWhiteSpace_def landscapeService_def mountain_def river_def newFuriganaProcessor_def
      applyRubyFromResponse_def applyRubyToWord_def shouldSkipRuby_def isKanji_def skipActive_def
      updateSkipInfo_def applyRuby_def applyInkBracketRuby_def substring_def substringFrom_def)

section \<open>What the earlier copies do\<close>

text \<open>
  The line-based splitter drops the first marker of a line and the line feed before a line
  that begins with a marker: three different texts get the same chunks, so the chunks do not
  determine the text.
\<close>

lemma splitTextIntoChunks_v0_loses_marker:
  "splitTextIntoChunks_v0 ([0x61] @ pageBreak @ [0x62]) = [[0x61], [0x62]]
   \<and> splitTextIntoChunks_v0 ([0x61, 0x0A] @ pageBreak @ [0x62]) = [[0x61], [0x62]]
   \<and> splitTextIntoChunks_v0 ([0x61] @ pageBreak @ [0x0A, 0x62]) = [[0x61], [0x62]]"
  by (simp add: splitTextIntoChunks_v0_def split_def pageBreak_def includes_str_def indexOf_def
      MAX_CHUNK_SIZE_def Let_def)

text \<open>The earlier rendering functions annotate kanji by kanji.\<close>

lemma per_character_rendering:
  "applyInkBracketRuby_v0 kanji_surface kanji_reading
     = [0x6F22, 0x3010, 0x304B, 0x3011, 0x5B57, 0x3010, 0x3093, 0x3011]"
  by (simp add: applyInkBracketRuby_v0_def kanji_surface_def kanji_reading_def isKanji_def)

text \<open>
  The earlier loop appends the rendering of a word that is not found and moves the cursor:
  for the chunk U+6F22 U+5B57 and the words river and U+6F22 U+5B57, the output begins with
  the gloss of the river, which is not in the chunk.
\<close>

lemma wordLoop_v0_miss:
  "indexOf originalText (surface word) currentPos = None \<Longrightarrow>
     wordLoop_v0 originalText (word # words) (result, currentPos, p)
       = wordLoop_v0 originalText words
           (result @ fst (applyRubyToWord_v0 p word), length (surface word) - 1,
            snd (applyRubyToWord_v0 p word))"
  by (simp split: prod.splits)

lemma applyRubyFromResponse_v0_miss_example:
  "fst (applyRubyFromResponse_v0 p0 [river, kanjiWord] kanji_surface)
     = [0x5DDD, 0x3010, 0x304B, 0x3011, 0x6F22, 0x3010, 0x304B, 0x3011, 0x5B57, 0x3010, 0x3093, 0x3011]"
  by (simp add: kanji_surface_def river_def indexOf_def applyRubyFromResponse_v0_def
      applyRubyToWord_v0_def kanjiWord_def kanji_reading_def shouldSkipRuby_def isKanji_def
      skipActive_def applyRuby_v0_def applyInkBracketRuby_v0_def p0_def newFuriganaProcessor_def
      updateSkipInfo_def)

end
